theory Spec2Isabelle
  imports Complex_Main "HOL-Library.AList"
begin

section \<open>Python values used by app.py\<close>

subsection \<open>Floats\<close>

text \<open>
  Amounts, balances and the per-withdrawal limit are Python floats. The model keeps the
  three special values a float can hold (the interactive reader \<^verbatim>\<open>_input_float\<close>
  passes the user's text to \<^verbatim>\<open>float\<close>, which accepts "nan" and "inf") and
  takes every finite value as an exact rational: rounding, overflow and the sign of zero are
  left out. Comparisons follow IEEE 754 as Python implements them: every ordered comparison
  with NaN is false.
\<close>

datatype pyfloat = Fin rat | PInf | NInf | NaN

text \<open>\<^verbatim>\<open>a <= b\<close>\<close>

fun fle :: "pyfloat \<Rightarrow> pyfloat \<Rightarrow> bool" where
  "fle NaN b = False"
| "fle a NaN = False"
| "fle NInf b = True"
| "fle a PInf = True"
| "fle (Fin a) (Fin b) = (a \<le> b)"
| "fle a b = False"

text \<open>\<^verbatim>\<open>a < b\<close>\<close>

fun flt :: "pyfloat \<Rightarrow> pyfloat \<Rightarrow> bool" where
  "flt NaN b = False"
| "flt a NaN = False"
| "flt PInf b = False"
| "flt a NInf = False"
| "flt (Fin a) (Fin b) = (a < b)"
| "flt a b = True"

text \<open>\<^verbatim>\<open>a > b\<close> and \<^verbatim>\<open>a >= b\<close>\<close>

definition fgt :: "pyfloat \<Rightarrow> pyfloat \<Rightarrow> bool" where
  "fgt a b = flt b a"

definition fge :: "pyfloat \<Rightarrow> pyfloat \<Rightarrow> bool" where
  "fge a b = fle b a"

text \<open>\<^verbatim>\<open>a + b\<close> and \<^verbatim>\<open>a - b\<close>\<close>

fun fadd :: "pyfloat \<Rightarrow> pyfloat \<Rightarrow> pyfloat" where
  "fadd NaN b = NaN"
| "fadd a NaN = NaN"
| "fadd PInf NInf = NaN"
| "fadd NInf PInf = NaN"
| "fadd PInf b = PInf"
| "fadd a PInf = PInf"
| "fadd NInf b = NInf"
| "fadd a NInf = NInf"
| "fadd (Fin a) (Fin b) = Fin (a + b)"

fun fsub :: "pyfloat \<Rightarrow> pyfloat \<Rightarrow> pyfloat" where
  "fsub NaN b = NaN"
| "fsub a NaN = NaN"
| "fsub PInf PInf = NaN"
| "fsub NInf NInf = NaN"
| "fsub PInf b = PInf"
| "fsub a NInf = PInf"
| "fsub NInf b = NInf"
| "fsub a PInf = NInf"
| "fsub (Fin a) (Fin b) = Fin (a - b)"

subsection \<open>Strings\<close>

text \<open>
  A Python string is modelled as a HOL string whose characters are the code points 0 to 255
  (Latin-1), which covers every literal of app.py. On that range \<^verbatim>\<open>str.isdigit\<close>
  holds for the ten decimal digits and for the superscripts U+00B2, U+00B3 and U+00B9;
  \<^verbatim>\<open>str.strip\<close> removes U+0009 to U+000D, U+001C to U+0020, U+0085 and U+00A0
  from both ends.
\<close>

definition isdigit :: "char \<Rightarrow> bool" where
  "isdigit ch = (ch \<in> set (''0123456789'' @ [CHR 0xB2, CHR 0xB3, CHR 0xB9]))"

definition isspace :: "char \<Rightarrow> bool" where
  "isspace ch = (ch \<in> set [CHR 0x09, CHR 0x0A, CHR 0x0B, CHR 0x0C, CHR 0x0D,
                          CHR 0x1C, CHR 0x1D, CHR 0x1E, CHR 0x1F, CHR 0x20,
                          CHR 0x85, CHR 0xA0])"

definition strip :: "string \<Rightarrow> string" where
  "strip s = rev (dropWhile isspace (rev (dropWhile isspace s)))"

text \<open>\<^verbatim>\<open>s.replace(a, b)\<close> for one-character \<open>a\<close> and \<open>b\<close>\<close>

definition replace_char :: "char \<Rightarrow> char \<Rightarrow> string \<Rightarrow> string" where
  "replace_char a b s = map (\<lambda>ch. if ch = a then b else ch) s"

text \<open>\<^verbatim>\<open>sep.join(xs)\<close>\<close>

fun join :: "string \<Rightarrow> string list \<Rightarrow> string" where
  "join sep [] = []"
| "join sep [x] = x"
| "join sep (x # y # ys) = x @ sep @ join sep (y # ys)"

subsection \<open>Dates\<close>

text \<open>
  \<^verbatim>\<open>datetime.date\<close>: year, month, day. The code only stores dates and compares them
  for equality.
\<close>

datatype date = Date int int int

section \<open>Data model\<close>

record Usuario =
  nome :: string
  data_nascimento :: date
  cpf :: string
  endereco :: string

record Conta =
  agencia :: string
  numero :: int
  cpf_titular :: string
  saldo :: pyfloat
  extrato :: "string list"
  numero_saques_hoje :: int
  data_referencia_saques :: "date option"

text \<open>
  The two registries are Python dicts. \<^verbatim>\<open>usuarios\<close> is only read by key and
  written by key, so it is a map; \<^verbatim>\<open>contas\<close> is also asked for its greatest key
  and iterated, so it is an association list in insertion order, written with
  \<^const>\<open>AList.update\<close> as a dict assignment does (replace the value in place, or
  append).
\<close>

type_synonym usuarios = "string \<rightharpoonup> Usuario"
type_synonym contas = "(int \<times> Conta) list"

section \<open>Failures\<close>

text \<open>
  Every failure of app.py is \<^verbatim>\<open>raise ValueError(message)\<close>; the raise sites differ
  only by their message. The model has one constructor per raise site, in source order:
  \<^item> \<open>CpfInvalido\<close>: criar_usuario, "CPF invalido: informe ao menos um digito."
  \<^item> \<open>CpfJaExiste\<close>: criar_usuario, "Ja existe usuario com este CPF."
  \<^item> \<open>DataNascimentoInvalida\<close>: criar_usuario, "Data de nascimento invalida. Use o formato
    DD/MM/AAAA."
  \<^item> \<open>UsuarioNaoEncontrado\<close>: criar_conta, "Usuario nao encontrado para o CPF informado."
  \<^item> \<open>DepositoNaoPositivo\<close>: deposito, "Valor de deposito deve ser positivo."
  \<^item> \<open>SaqueNaoPositivo\<close>: saque, "Valor de saque deve ser positivo."
  \<^item> \<open>SaldoInsuficiente\<close>: saque, "Saldo insuficiente para saque."
  \<^item> \<open>ExcedeLimitePorSaque\<close>: saque, "Valor excede o limite por saque."
  \<^item> \<open>LimiteSaquesAtingido\<close>: saque, "Limite de saques do periodo atingido."
\<close>

datatype erro =
    CpfInvalido
  | CpfJaExiste
  | DataNascimentoInvalida
  | UsuarioNaoEncontrado
  | DepositoNaoPositivo
  | SaqueNaoPositivo
  | SaldoInsuficiente
  | ExcedeLimitePorSaque
  | LimiteSaquesAtingido

text \<open>
  The specification names five kinds of failure (its section 7) and says which situation
  belongs to which kind; \<open>tipo_de_erro\<close> is that table, read against the raise sites.
\<close>

datatype tipo_erro =
    ValidationError
  | DuplicateError
  | NotFoundError
  | InsufficientFundsError
  | LimitExceededError

fun tipo_de_erro :: "erro \<Rightarrow> tipo_erro" where
  "tipo_de_erro CpfInvalido = ValidationError"
| "tipo_de_erro CpfJaExiste = DuplicateError"
| "tipo_de_erro DataNascimentoInvalida = ValidationError"
| "tipo_de_erro UsuarioNaoEncontrado = NotFoundError"
| "tipo_de_erro DepositoNaoPositivo = ValidationError"
| "tipo_de_erro SaqueNaoPositivo = ValidationError"
| "tipo_de_erro SaldoInsuficiente = InsufficientFundsError"
| "tipo_de_erro ExcedeLimitePorSaque = LimitExceededError"
| "tipo_de_erro LimiteSaquesAtingido = LimitExceededError"

section \<open>Utilities\<close>

text \<open>
  Four things come from outside the program and are parameters of the model:
  \<^item> \<open>fmt\<close>, the text of \<^verbatim>\<open>f"{valor:,.2f}"\<close> (the float formatted with two decimals
    and comma grouping);
  \<^item> \<open>agora\<close>, the text of \<^verbatim>\<open>f"{datetime.now():%d/%m/%Y %H:%M}"\<close> at the call;
  \<^item> \<open>hoje\<close>, the value of \<^verbatim>\<open>_hoje()\<close>, that is \<^verbatim>\<open>datetime.now().date()\<close>, at
    the call;
  \<^item> \<open>strptime\<close>, the result of \<^verbatim>\<open>datetime.strptime(s, "%d/%m/%Y").date()\<close>, with
    \<open>None\<close> where it raises ValueError.
\<close>

definition formatar_moeda :: "(pyfloat \<Rightarrow> string) \<Rightarrow> pyfloat \<Rightarrow> string" where
  "formatar_moeda fmt valor =
     replace_char CHR ''X'' CHR ''.''
       (replace_char CHR ''.'' CHR '',''
         (replace_char CHR '','' CHR ''X'' (''R$ '' @ fmt valor)))"

definition somente_digitos :: "string \<Rightarrow> string" where
  "somente_digitos texto = filter isdigit texto"

section \<open>Registering holders and opening accounts\<close>

definition filtrar_usuario_por_cpf :: "string \<Rightarrow> usuarios \<Rightarrow> Usuario option" where
  "filtrar_usuario_por_cpf cpf_arg us = us (somente_digitos cpf_arg)"

text \<open>
  Each operation that mutates a registry or an account returns its outcome (\<open>Inl\<close> the
  failure raised, \<open>Inr\<close> the value returned) together with the registry or account as the
  call leaves it, so that what a raising call has already written stays visible.
\<close>

definition criar_usuario ::
  "(string \<Rightarrow> date option) \<Rightarrow> string \<Rightarrow> string \<Rightarrow> string \<Rightarrow> string \<Rightarrow> usuarios
     \<Rightarrow> (erro + Usuario) \<times> usuarios" where
  "criar_usuario strptime nome_arg data_nascimento_str cpf_arg endereco_arg us =
     (let cpf_num = somente_digitos cpf_arg in
      if cpf_num = [] then (Inl CpfInvalido, us)
      else if us cpf_num \<noteq> None then (Inl CpfJaExiste, us)
      else
        (case strptime data_nascimento_str of
           None \<Rightarrow> (Inl DataNascimentoInvalida, us)
         | Some dn \<Rightarrow>
             (let usuario = \<lparr>nome = strip nome_arg, data_nascimento = dn, cpf = cpf_num,
                             endereco = strip endereco_arg\<rparr>
              in (Inr usuario, us(cpf_num \<mapsto> usuario)))))"

definition criar_conta :: "string \<Rightarrow> usuarios \<Rightarrow> contas \<Rightarrow> (erro + Conta) \<times> contas" where
  "criar_conta cpf_titular_arg us cs =
     (let cpf_num = somente_digitos cpf_titular_arg in
      if us cpf_num = None then (Inl UsuarioNaoEncontrado, cs)
      else
        (let proximo_numero = (if cs = [] then 1 else Max (set (map fst cs)) + 1);
             conta = \<lparr>agencia = ''0001'', numero = proximo_numero, cpf_titular = cpf_num,
                      saldo = Fin 0, extrato = [], numero_saques_hoje = 0,
                      data_referencia_saques = None\<rparr>
         in (Inr conta, AList.update proximo_numero conta cs)))"

section \<open>Banking operations\<close>

text \<open>
  \<open>deposito\<close> and \<open>saque\<close> append the new line to the list they are given, in place, and
  return that list; the model returns the list with the line appended. Both run all their
  checks before the first write.
\<close>

definition deposito ::
  "(pyfloat \<Rightarrow> string) \<Rightarrow> string \<Rightarrow> pyfloat \<Rightarrow> pyfloat \<Rightarrow> string list
     \<Rightarrow> erro + (pyfloat \<times> string list)" where
  "deposito fmt agora saldo_arg valor extrato_arg =
     (if fle valor (Fin 0) then Inl DepositoNaoPositivo
      else
        (let saldo1 = fadd saldo_arg valor in
         Inr (saldo1,
              extrato_arg @
                [agora @ '' | DEP'' @ [CHR 0xD3] @ ''SITO   | +'' @ formatar_moeda fmt valor
                   @ '' | Saldo: '' @ formatar_moeda fmt saldo1])))"

definition resetar_contagem_saques_se_novo_dia :: "date \<Rightarrow> Conta \<Rightarrow> Conta" where
  "resetar_contagem_saques_se_novo_dia hoje conta =
     (if data_referencia_saques conta \<noteq> Some hoje
      then conta\<lparr>data_referencia_saques := Some hoje, numero_saques_hoje := 0\<rparr>
      else conta)"

definition saque ::
  "(pyfloat \<Rightarrow> string) \<Rightarrow> string \<Rightarrow> pyfloat \<Rightarrow> pyfloat \<Rightarrow> string list \<Rightarrow> pyfloat \<Rightarrow> int \<Rightarrow> int
     \<Rightarrow> erro + (pyfloat \<times> string list \<times> int)" where
  "saque fmt agora saldo_arg valor extrato_arg limite numero_saques limite_saques =
     (if fle valor (Fin 0) then Inl SaqueNaoPositivo
      else if fgt valor saldo_arg then Inl SaldoInsuficiente
      else if fgt valor limite then Inl ExcedeLimitePorSaque
      else if numero_saques \<ge> limite_saques then Inl LimiteSaquesAtingido
      else
        (let saldo1 = fsub saldo_arg valor;
             numero_saques1 = numero_saques + 1
         in Inr (saldo1,
                 extrato_arg @
                   [agora @ '' | SAQUE      | -'' @ formatar_moeda fmt valor
                      @ '' | Saldo: '' @ formatar_moeda fmt saldo1],
                 numero_saques1)))"

definition exibir_extrato :: "(pyfloat \<Rightarrow> string) \<Rightarrow> pyfloat \<Rightarrow> string list \<Rightarrow> string" where
  "exibir_extrato fmt saldo_arg extrato_arg =
     (let linhas = [[CHR 0x0A] @ ''========== EXTRATO ==========''];
          linhas1 = (if extrato_arg \<noteq> [] then linhas @ extrato_arg
                     else linhas @ [''(Sem movimenta'' @ [CHR 0xE7, CHR 0xF5] @ ''es)'']);
          linhas2 = linhas1 @ [''Saldo atual: '' @ formatar_moeda fmt saldo_arg];
          linhas3 = linhas2 @ [''============================='' @ [CHR 0x0A]]
      in join [CHR 0x0A] linhas3)"

section \<open>Per-account facades\<close>

definition depositar_na_conta ::
  "(pyfloat \<Rightarrow> string) \<Rightarrow> string \<Rightarrow> Conta \<Rightarrow> pyfloat \<Rightarrow> (erro + unit) \<times> Conta" where
  "depositar_na_conta fmt agora conta valor =
     (case deposito fmt agora (saldo conta) valor (extrato conta) of
        Inl e \<Rightarrow> (Inl e, conta)
      | Inr (saldo1, extrato1) \<Rightarrow> (Inr (), conta\<lparr>saldo := saldo1, extrato := extrato1\<rparr>))"

definition sacar_da_conta ::
  "(pyfloat \<Rightarrow> string) \<Rightarrow> date \<Rightarrow> string \<Rightarrow> Conta \<Rightarrow> pyfloat \<Rightarrow> pyfloat \<Rightarrow> int
     \<Rightarrow> (erro + unit) \<times> Conta" where
  "sacar_da_conta fmt hoje agora conta valor limite_por_saque limite_saques_dia =
     (let conta1 = resetar_contagem_saques_se_novo_dia hoje conta in
      case saque fmt agora (saldo conta1) valor (extrato conta1) limite_por_saque
             (numero_saques_hoje conta1) limite_saques_dia of
        Inl e \<Rightarrow> (Inl e, conta1)
      | Inr (novo_saldo, novo_extrato, novo_num) \<Rightarrow>
          (Inr (), conta1\<lparr>saldo := novo_saldo, extrato := novo_extrato,
                           numero_saques_hoje := novo_num\<rparr>))"

text \<open>
  \<open>exibir_extrato\<close> copies the log into a list of its own and \<open>extrato_da_conta\<close> only
  reads the account: the source has no assignment to a field of the account and no append to
  its log on this path. The model returns the account next to the text, as the other facades
  do.
\<close>

definition extrato_da_conta :: "(pyfloat \<Rightarrow> string) \<Rightarrow> Conta \<Rightarrow> string \<times> Conta" where
  "extrato_da_conta fmt conta = (exibir_extrato fmt (saldo conta) (extrato conta), conta)"

section \<open>Runs of calls\<close>

text \<open>
  Several withdrawals made one after the other on the same day \<open>hoje\<close> with the same two
  limits, each call given by its timestamp text and its amount. The run returns the outcome
  of every call and the account after the last one.
\<close>

fun sacar_seguidos ::
  "(pyfloat \<Rightarrow> string) \<Rightarrow> date \<Rightarrow> pyfloat \<Rightarrow> int \<Rightarrow> Conta \<Rightarrow> (string \<times> pyfloat) list
     \<Rightarrow> (erro + unit) list \<times> Conta" where
  "sacar_seguidos fmt hoje limite limite_saques conta [] = ([], conta)"
| "sacar_seguidos fmt hoje limite limite_saques conta ((agora, valor) # resto) =
     (case sacar_da_conta fmt hoje agora conta valor limite limite_saques of
        (r, conta1) \<Rightarrow>
          (case sacar_seguidos fmt hoje limite limite_saques conta1 resto of
             (rs, conta2) \<Rightarrow> (r # rs, conta2)))"

text \<open>
  A call of one of the two mutating facades with its arguments, and the account it leaves,
  whether it returns or raises.
\<close>

datatype operacao =
    Depositar string pyfloat
  | Sacar date string pyfloat pyfloat int

fun executar :: "(pyfloat \<Rightarrow> string) \<Rightarrow> Conta \<Rightarrow> operacao \<Rightarrow> Conta" where
  "executar fmt conta (Depositar agora valor) = snd (depositar_na_conta fmt agora conta valor)"
| "executar fmt conta (Sacar hoje agora valor limite limite_saques) =
     snd (sacar_da_conta fmt hoje agora conta valor limite limite_saques)"

text \<open>The amount of the call is a finite number.\<close>

fun finita :: "operacao \<Rightarrow> bool" where
  "finita (Depositar agora valor) = (case valor of Fin q \<Rightarrow> True | _ \<Rightarrow> False)"
| "finita (Sacar hoje agora valor limite limite_saques) =
     (case valor of Fin q \<Rightarrow> True | _ \<Rightarrow> False)"

section \<open>Example data\<close>

text \<open>
  The values of \<^verbatim>\<open>f"{v:,.2f}"\<close> at the amounts the examples below use; the parameter
  \<open>fmt\<close> is instantiated with this table there.
\<close>

definition formato_exemplo :: "pyfloat \<Rightarrow> string" where
  "formato_exemplo v =
     (if v = Fin 0 then ''0.00''
      else if v = Fin 100 then ''100.00''
      else if v = Fin 600 then ''600.00''
      else if v = Fin 700 then ''700.00''
      else if v = Fin 800 then ''800.00''
      else if v = Fin 900 then ''900.00''
      else if v = Fin 1000 then ''1,000.00''
      else if v = PInf then ''inf''
      else if v = NaN then ''nan''
      else [])"

text \<open>
  The results of \<^verbatim>\<open>datetime.strptime(s, "%d/%m/%Y").date()\<close> at the texts the examples
  below use: two dates that parse; 31/02/1990 is among the texts that raise.
\<close>

definition strptime_exemplo :: "string \<Rightarrow> date option" where
  "strptime_exemplo s =
     (if s = ''15/03/1990'' then Some (Date 1990 3 15)
      else if s = ''01/01/2000'' then Some (Date 2000 1 1)
      else None)"

text \<open>A registry with two holders, registered in this order.\<close>

definition usuarios_exemplo :: usuarios where
  "usuarios_exemplo =
     snd (criar_usuario strptime_exemplo ''Bia Souza'' ''01/01/2000'' ''11144477735''
            ''Rua B, 2, Boa Vista, Recife/PE''
            (snd (criar_usuario strptime_exemplo ''  Ana Lima '' ''15/03/1990'' ''529.982.247-25''
                    ''Rua A, 1, Centro, Recife/PE'' Map.empty)))"

text \<open>The account that \<open>criar_conta\<close> makes first, for the holder 529.982.247-25.\<close>

definition conta_nova :: Conta where
  "conta_nova = \<lparr>agencia = ''0001'', numero = 1, cpf_titular = ''52998224725'',
                  saldo = Fin 0, extrato = [], numero_saques_hoje = 0,
                  data_referencia_saques = None\<rparr>"

text \<open>That account after a deposit of 1000 and a withdrawal of 100 on 5 November 2026.\<close>

definition conta_dia1 :: Conta where
  "conta_dia1 =
     snd (sacar_da_conta formato_exemplo (Date 2026 11 5) ''05/11/2026 10:00''
            (snd (depositar_na_conta formato_exemplo ''05/11/2026 09:00'' conta_nova (Fin 1000)))
            (Fin 100) (Fin 500) 3)"

section \<open>Facts about the float comparisons and the example data\<close>

lemma fle_not_fgt: "fle a b \<Longrightarrow> \<not> fgt a b"
  by (cases a; cases b) (auto simp: fgt_def)

lemma fgt_not_fle: "fgt a b \<Longrightarrow> \<not> fle a b"
  by (cases a; cases b) (auto simp: fgt_def)

lemma conta_dia1_eq:
  "conta_dia1 =
     \<lparr>agencia = ''0001'', numero = 1, cpf_titular = ''52998224725'', saldo = Fin 900,
      extrato =
        [''05/11/2026 09:00 | DEP'' @ [CHR 0xD3] @ ''SITO   | +R$ 1.000,00 | Saldo: R$ 1.000,00'',
         ''05/11/2026 10:00 | SAQUE      | -R$ 100,00 | Saldo: R$ 900,00''],
      numero_saques_hoje = 1,
      data_referencia_saques = Some (Date 2026 11 5)\<rparr>"
  by (simp add: conta_dia1_def conta_nova_def sacar_da_conta_def depositar_na_conta_def
      deposito_def saque_def resetar_contagem_saques_se_novo_dia_def fgt_def
      formatar_moeda_def formato_exemplo_def replace_char_def)

lemma somente_digitos_exemplo: "somente_digitos ''529.982.247-25'' = ''52998224725''"
  by (simp add: somente_digitos_def isdigit_def)

lemma usuarios_exemplo_eq:
  "usuarios_exemplo =
     [''52998224725'' \<mapsto>
        \<lparr>nome = ''Ana Lima'', data_nascimento = Date 1990 3 15, cpf = ''52998224725'',
         endereco = ''Rua A, 1, Centro, Recife/PE''\<rparr>,
      ''11144477735'' \<mapsto>
        \<lparr>nome = ''Bia Souza'', data_nascimento = Date 2000 1 1, cpf = ''11144477735'',
         endereco = ''Rua B, 2, Boa Vista, Recife/PE''\<rparr>]"
  by (simp add: usuarios_exemplo_def criar_usuario_def somente_digitos_def isdigit_def
      strptime_exemplo_def strip_def isspace_def Let_def)

lemma criar_conta_exemplo:
  "criar_conta ''529.982.247-25'' usuarios_exemplo [] = (Inr conta_nova, [(1, conta_nova)])"
  by (simp add: criar_conta_def somente_digitos_exemplo usuarios_exemplo_eq conta_nova_def
      Let_def)

section \<open>Failed calls and what they leave behind\<close>

text \<open>
  C1, as the claim states it, fails on the code. \<open>sacar_da_conta\<close> runs the new-day reset
  before \<open>saque\<close> validates anything, and the reset is kept when \<open>saque\<close> raises. On
  6 November a withdrawal of 1000 from the example account (balance 900, one withdrawal
  counted on 5 November) fails for insufficient funds, and afterwards the counter is 0 and
  the reference date is 6 November: neither is unchanged.
\<close>

theorem falha_de_saque_reinicia_contagem:
  "fst (sacar_da_conta formato_exemplo (Date 2026 11 6) ''06/11/2026 09:00'' conta_dia1
          (Fin 1000) (Fin 500) 3) = Inl SaldoInsuficiente
   \<and> numero_saques_hoje conta_dia1 = 1
   \<and> numero_saques_hoje (snd (sacar_da_conta formato_exemplo (Date 2026 11 6)
         ''06/11/2026 09:00'' conta_dia1 (Fin 1000) (Fin 500) 3)) = 0
   \<and> data_referencia_saques conta_dia1 = Some (Date 2026 11 5)
   \<and> data_referencia_saques (snd (sacar_da_conta formato_exemplo (Date 2026 11 6)
         ''06/11/2026 09:00'' conta_dia1 (Fin 1000) (Fin 500) 3)) = Some (Date 2026 11 6)"
  by (simp add: conta_dia1_eq sacar_da_conta_def saque_def
      resetar_contagem_saques_se_novo_dia_def fgt_def)

text \<open>
  C1, amended. A deposit that fails leaves the whole account as it was. A withdrawal that
  fails leaves the balance and the log as they were; it leaves the counter and the reference
  date as they were when the reference date was already today, and otherwise leaves the
  reference date set to today and the counter at 0. A withdrawal with amount > balance
  fails: for insufficient funds when the amount is positive, and at the positivity check,
  which comes first, when it is not.
\<close>

theorem falha_preserva_saldo_e_extrato:
  "(fst (depositar_na_conta fmt agora conta valor_d) = Inl e_d \<longrightarrow>
      snd (depositar_na_conta fmt agora conta valor_d) = conta)
   \<and> (fst (sacar_da_conta fmt hoje agora conta valor limite limite_saques) = Inl e_s \<longrightarrow>
        saldo (snd (sacar_da_conta fmt hoje agora conta valor limite limite_saques))
          = saldo conta
      \<and> extrato (snd (sacar_da_conta fmt hoje agora conta valor limite limite_saques))
          = extrato conta
      \<and> (data_referencia_saques conta = Some hoje \<longrightarrow>
           snd (sacar_da_conta fmt hoje agora conta valor limite limite_saques) = conta)
      \<and> (data_referencia_saques conta \<noteq> Some hoje \<longrightarrow>
           snd (sacar_da_conta fmt hoje agora conta valor limite limite_saques)
             = conta\<lparr>data_referencia_saques := Some hoje, numero_saques_hoje := 0\<rparr>))
   \<and> (fgt valor (saldo conta) \<longrightarrow>
        fst (sacar_da_conta fmt hoje agora conta valor limite limite_saques)
          = Inl (if fle valor (Fin 0) then SaqueNaoPositivo else SaldoInsuficiente)
      \<and> tipo_de_erro SaldoInsuficiente = InsufficientFundsError)"
  by (auto simp: depositar_na_conta_def deposito_def sacar_da_conta_def saque_def Let_def
      resetar_contagem_saques_se_novo_dia_def split: if_splits)

theorem falha_preserva_saldo_e_extrato_witness:
  "fst (depositar_na_conta formato_exemplo ''06/11/2026 09:00'' conta_dia1 (Fin 0))
     = Inl DepositoNaoPositivo
   \<and> snd (depositar_na_conta formato_exemplo ''06/11/2026 09:00'' conta_dia1 (Fin 0)) = conta_dia1
   \<and> fst (sacar_da_conta formato_exemplo (Date 2026 11 6) ''06/11/2026 09:00'' conta_dia1
            (Fin 1000) (Fin 500) 3) = Inl SaldoInsuficiente
   \<and> snd (sacar_da_conta formato_exemplo (Date 2026 11 6) ''06/11/2026 09:00'' conta_dia1
            (Fin 1000) (Fin 500) 3)
       = conta_dia1\<lparr>data_referencia_saques := Some (Date 2026 11 6), numero_saques_hoje := 0\<rparr>
   \<and> fst (sacar_da_conta formato_exemplo (Date 2026 11 5) ''05/11/2026 11:00'' conta_dia1
            (Fin 1000) (Fin 500) 3) = Inl SaldoInsuficiente
   \<and> snd (sacar_da_conta formato_exemplo (Date 2026 11 5) ''05/11/2026 11:00'' conta_dia1
            (Fin 1000) (Fin 500) 3) = conta_dia1"
proof -
  have dep: "fst (depositar_na_conta formato_exemplo ''06/11/2026 09:00'' conta_dia1 (Fin 0))
               = Inl DepositoNaoPositivo"
    by (simp add: depositar_na_conta_def deposito_def)
  have maior: "fgt (Fin 1000) (saldo conta_dia1)"
    by (simp add: conta_dia1_eq fgt_def)
  have outro_dia: "data_referencia_saques conta_dia1 \<noteq> Some (Date 2026 11 6)"
    by (simp add: conta_dia1_eq)
  have mesmo_dia: "data_referencia_saques conta_dia1 = Some (Date 2026 11 5)"
    by (simp add: conta_dia1_eq)
  note novo = falha_preserva_saldo_e_extrato
      [where fmt = formato_exemplo and agora = "''06/11/2026 09:00''"
      and conta = conta_dia1 and valor_d = "Fin 0" and e_d = DepositoNaoPositivo
      and hoje = "Date 2026 11 6" and valor = "Fin 1000" and limite = "Fin 500"
      and limite_saques = 3 and e_s = SaldoInsuficiente]
  note mesmo = falha_preserva_saldo_e_extrato
      [where fmt = formato_exemplo and agora = "''05/11/2026 11:00''"
      and conta = conta_dia1 and valor_d = "Fin 0" and e_d = DepositoNaoPositivo
      and hoje = "Date 2026 11 5" and valor = "Fin 1000" and limite = "Fin 500"
      and limite_saques = 3 and e_s = SaldoInsuficiente]
  from novo mesmo dep maior outro_dia mesmo_dia show ?thesis
    by simp
qed

section \<open>Withdrawal: the order of the checks\<close>

text \<open>
  C2. A withdrawal checks, in this order: the amount is positive; the amount does not exceed
  the balance; the amount does not exceed the limit per withdrawal; the counter (as the
  new-day reset leaves it) is below the daily limit. The failure raised is that of the first
  check violated, whatever later checks would also be violated: a non-positive amount gives a
  ValidationError, otherwise an amount above the balance gives an InsufficientFundsError,
  otherwise an amount above the limit per withdrawal gives a LimitExceededError, otherwise a
  counter at the daily limit gives a LimitExceededError, and otherwise the call succeeds.
\<close>

theorem ordem_de_validacao_do_saque:
  "(fle valor (Fin 0) \<longrightarrow>
      fst (sacar_da_conta fmt hoje agora conta valor limite limite_saques) = Inl SaqueNaoPositivo)
   \<and> (\<not> fle valor (Fin 0) \<and> fgt valor (saldo conta) \<longrightarrow>
      fst (sacar_da_conta fmt hoje agora conta valor limite limite_saques) = Inl SaldoInsuficiente)
   \<and> (\<not> fle valor (Fin 0) \<and> \<not> fgt valor (saldo conta) \<and> fgt valor limite \<longrightarrow>
      fst (sacar_da_conta fmt hoje agora conta valor limite limite_saques)
        = Inl ExcedeLimitePorSaque)
   \<and> (\<not> fle valor (Fin 0) \<and> \<not> fgt valor (saldo conta) \<and> \<not> fgt valor limite
       \<and> numero_saques_hoje (resetar_contagem_saques_se_novo_dia hoje conta) \<ge> limite_saques \<longrightarrow>
      fst (sacar_da_conta fmt hoje agora conta valor limite limite_saques)
        = Inl LimiteSaquesAtingido)
   \<and> (\<not> fle valor (Fin 0) \<and> \<not> fgt valor (saldo conta) \<and> \<not> fgt valor limite
       \<and> numero_saques_hoje (resetar_contagem_saques_se_novo_dia hoje conta) < limite_saques \<longrightarrow>
      fst (sacar_da_conta fmt hoje agora conta valor limite limite_saques) = Inr ())
   \<and> tipo_de_erro SaqueNaoPositivo = ValidationError
   \<and> tipo_de_erro SaldoInsuficiente = InsufficientFundsError
   \<and> tipo_de_erro ExcedeLimitePorSaque = LimitExceededError
   \<and> tipo_de_erro LimiteSaquesAtingido = LimitExceededError"
  by (simp add: sacar_da_conta_def saque_def Let_def resetar_contagem_saques_se_novo_dia_def)

text \<open>
  Five calls, each violating the check it fails at and, but for the last, a later one too:
  \<^item> -5 from a balance of -10: not positive, and above the balance;
  \<^item> 1000 from the example account (balance 900, one withdrawal today) with limit 500:
    above the balance, and above the limit;
  \<^item> 600 with limit 500 and daily limit 1: above the limit, and the counter is at the
    daily limit;
  \<^item> 100 with daily limit 1: the counter is at the daily limit;
  \<^item> 100 with daily limit 3: no check fails.
\<close>

theorem ordem_de_validacao_do_saque_witness:
  "fst (sacar_da_conta formato_exemplo (Date 2026 11 5) ''05/11/2026 11:00''
          (conta_nova\<lparr>saldo := Fin (- 10)\<rparr>) (Fin (- 5)) (Fin 500) 3) = Inl SaqueNaoPositivo
   \<and> fst (sacar_da_conta formato_exemplo (Date 2026 11 5) ''05/11/2026 11:00'' conta_dia1
            (Fin 1000) (Fin 500) 3) = Inl SaldoInsuficiente
   \<and> fst (sacar_da_conta formato_exemplo (Date 2026 11 5) ''05/11/2026 11:00'' conta_dia1
            (Fin 600) (Fin 500) 1) = Inl ExcedeLimitePorSaque
   \<and> fst (sacar_da_conta formato_exemplo (Date 2026 11 5) ''05/11/2026 11:00'' conta_dia1
            (Fin 100) (Fin 500) 1) = Inl LimiteSaquesAtingido
   \<and> fst (sacar_da_conta formato_exemplo (Date 2026 11 5) ''05/11/2026 11:00'' conta_dia1
            (Fin 100) (Fin 500) 3) = Inr ()"
proof -
  have negativo: "fle (Fin (- 5)) (Fin 0)" "fgt (Fin (- 5)) (saldo (conta_nova\<lparr>saldo := Fin (- 10)\<rparr>))"
    by (simp_all add: fgt_def)
  have mil: "\<not> fle (Fin 1000) (Fin 0)" "fgt (Fin 1000) (saldo conta_dia1)" "fgt (Fin 1000) (Fin 500)"
    by (simp_all add: fgt_def conta_dia1_eq)
  have seiscentos: "\<not> fle (Fin 600) (Fin 0)" "\<not> fgt (Fin 600) (saldo conta_dia1)"
      "fgt (Fin 600) (Fin 500)"
    by (simp_all add: fgt_def conta_dia1_eq)
  have cem: "\<not> fle (Fin 100) (Fin 0)" "\<not> fgt (Fin 100) (saldo conta_dia1)"
      "\<not> fgt (Fin 100) (Fin 500)"
    by (simp_all add: fgt_def conta_dia1_eq)
  have contagem: "numero_saques_hoje (resetar_contagem_saques_se_novo_dia (Date 2026 11 5) conta_dia1) = 1"
    by (simp add: conta_dia1_eq resetar_contagem_saques_se_novo_dia_def)
  note ordem_de_validacao_do_saque
      [where fmt = formato_exemplo and hoje = "Date 2026 11 5" and agora = "''05/11/2026 11:00''"
        and conta = "conta_nova\<lparr>saldo := Fin (- 10)\<rparr>" and valor = "Fin (- 5)"
        and limite = "Fin 500" and limite_saques = 3]
    ordem_de_validacao_do_saque
      [where fmt = formato_exemplo and hoje = "Date 2026 11 5" and agora = "''05/11/2026 11:00''"
        and conta = conta_dia1 and valor = "Fin 1000" and limite = "Fin 500"
        and limite_saques = 3]
    ordem_de_validacao_do_saque
      [where fmt = formato_exemplo and hoje = "Date 2026 11 5" and agora = "''05/11/2026 11:00''"
        and conta = conta_dia1 and valor = "Fin 600" and limite = "Fin 500"
        and limite_saques = 1]
    ordem_de_validacao_do_saque
      [where fmt = formato_exemplo and hoje = "Date 2026 11 5" and agora = "''05/11/2026 11:00''"
        and conta = conta_dia1 and valor = "Fin 100" and limite = "Fin 500"
        and limite_saques = 1]
    ordem_de_validacao_do_saque
      [where fmt = formato_exemplo and hoje = "Date 2026 11 5" and agora = "''05/11/2026 11:00''"
        and conta = conta_dia1 and valor = "Fin 100" and limite = "Fin 500"
        and limite_saques = 3]
  with negativo mil seiscentos cem contagem show ?thesis
    by simp
qed

section \<open>Withdrawal: a valid call\<close>



section \<open>The daily counter of withdrawals\<close>

lemma sacar_da_conta_data:
  "data_referencia_saques (snd (sacar_da_conta fmt hoje agora conta valor limite limite_saques))
     = Some hoje"
  by (simp add: sacar_da_conta_def saque_def Let_def resetar_contagem_saques_se_novo_dia_def)

lemma sacar_da_conta_contagem:
  "numero_saques_hoje (snd (sacar_da_conta fmt hoje agora conta valor limite limite_saques)) =
     numero_saques_hoje (resetar_contagem_saques_se_novo_dia hoje conta)
       + (if fst (sacar_da_conta fmt hoje agora conta valor limite limite_saques) = Inr ()
          then 1 else 0)"
  by (simp add: sacar_da_conta_def saque_def Let_def)

lemma resetar_mesmo_dia:
  "data_referencia_saques conta = Some hoje \<Longrightarrow>
     resetar_contagem_saques_se_novo_dia hoje conta = conta"
  by (simp add: resetar_contagem_saques_se_novo_dia_def)

text \<open>A run of withdrawals on one day raises the day's counter by the number that succeed.\<close>

lemma sacar_seguidos_contagem:
  "numero_saques_hoje (resetar_contagem_saques_se_novo_dia hoje
       (snd (sacar_seguidos fmt hoje limite limite_saques conta chamadas)))
     = numero_saques_hoje (resetar_contagem_saques_se_novo_dia hoje conta)
         + int (count_list (fst (sacar_seguidos fmt hoje limite limite_saques conta chamadas))
                  (Inr ()))"
proof (induction chamadas arbitrary: conta)
  case Nil
  then show ?case by simp
next
  case (Cons ch resto)
  obtain agora valor where ch: "ch = (agora, valor)" by (cases ch)
  let ?r = "sacar_da_conta fmt hoje agora conta valor limite limite_saques"
  let ?rs = "sacar_seguidos fmt hoje limite limite_saques (snd ?r) resto"
  have desdobra: "sacar_seguidos fmt hoje limite limite_saques conta (ch # resto)
      = (fst ?r # fst ?rs, snd ?rs)"
    by (simp add: ch split: prod.splits)
  have "numero_saques_hoje (resetar_contagem_saques_se_novo_dia hoje (snd ?rs))
      = numero_saques_hoje (resetar_contagem_saques_se_novo_dia hoje (snd ?r))
          + int (count_list (fst ?rs) (Inr ()))"
    by (rule Cons.IH)
  also have "resetar_contagem_saques_se_novo_dia hoje (snd ?r) = snd ?r"
    by (rule resetar_mesmo_dia) (rule sacar_da_conta_data)
  also have "numero_saques_hoje (snd ?r)
      = numero_saques_hoje (resetar_contagem_saques_se_novo_dia hoje conta)
          + (if fst ?r = Inr () then 1 else 0)"
    by (rule sacar_da_conta_contagem)
  finally show ?case
    by (simp add: desdobra)
qed

text \<open>
  With the counter at the daily limit every withdrawal fails; a positive amount that the
  balance covers fails with a LimitExceededError, at the limit per withdrawal or at the
  daily limit.
\<close>

lemma saque_com_contagem_no_limite:
  assumes "numero_saques_hoje (resetar_contagem_saques_se_novo_dia hoje conta) \<ge> limite_saques"
  shows "\<exists>e. fst (sacar_da_conta fmt hoje agora conta valor limite limite_saques) = Inl e
           \<and> (fgt valor (Fin 0) \<and> fle valor (saldo conta) \<longrightarrow>
                tipo_de_erro e = LimitExceededError)"
  using assms
  by (auto simp: sacar_da_conta_def saque_def Let_def resetar_contagem_saques_se_novo_dia_def
      dest: fgt_not_fle fle_not_fgt)

text \<open>
  C4, as the claim states it, fails on the code where the daily limit is 0: the first
  withdrawal of a new day then fails although the amount is positive, covered by the balance
  and within the limit per withdrawal. On 6 November (the example account was last used on
  5 November) a withdrawal of 100 with limit 500 and daily limit 0 is refused.
\<close>

theorem primeiro_saque_do_dia_com_limite_zero:
  "data_referencia_saques conta_dia1 \<noteq> Some (Date 2026 11 6)
   \<and> fgt (Fin 100) (Fin 0) \<and> fle (Fin 100) (saldo conta_dia1) \<and> fle (Fin 100) (Fin 500)
   \<and> fst (sacar_da_conta formato_exemplo (Date 2026 11 6) ''06/11/2026 09:00'' conta_dia1
            (Fin 100) (Fin 500) 0) = Inl LimiteSaquesAtingido"
  by (simp add: conta_dia1_eq sacar_da_conta_def saque_def
      resetar_contagem_saques_se_novo_dia_def fgt_def)

text \<open>
  C4, amended. Every withdrawal call leaves the reference date at today's date, and a call
  made when the reference date is not today behaves as the same call on the account with the
  counter at 0 and the reference date today: the reset comes before any validation. Once
  as many withdrawals as the daily limit allows have succeeded on a day, counted from the
  first call of that day and whatever calls failed in between, every further call on that
  day fails, and it fails with a LimitExceededError when its amount is positive and covered
  by the balance. The first
  withdrawal of a new day succeeds, whatever the counter was, when its amount is positive,
  covered by the balance and within the limit per withdrawal and the daily limit is at
  least 1; it leaves the counter at 1.
\<close>

theorem contagem_diaria_de_saques:
  "data_referencia_saques (snd (sacar_da_conta fmt hoje agora conta valor limite limite_saques))
     = Some hoje
   \<and> (data_referencia_saques conta \<noteq> Some hoje \<longrightarrow>
        sacar_da_conta fmt hoje agora conta valor limite limite_saques
          = sacar_da_conta fmt hoje agora
              (conta\<lparr>data_referencia_saques := Some hoje, numero_saques_hoje := 0\<rparr>)
              valor limite limite_saques)
   \<and> (data_referencia_saques conta \<noteq> Some hoje
       \<and> limite_saques
           \<le> int (count_list (fst (sacar_seguidos fmt hoje limite limite_saques conta chamadas))
                    (Inr ())) \<longrightarrow>
        (\<exists>e. fst (sacar_da_conta fmt hoje agora
                    (snd (sacar_seguidos fmt hoje limite limite_saques conta chamadas))
                    valor limite limite_saques) = Inl e
            \<and> (fgt valor (Fin 0)
                 \<and> fle valor
                     (saldo (snd (sacar_seguidos fmt hoje limite limite_saques conta chamadas)))
               \<longrightarrow> tipo_de_erro e = LimitExceededError)))
   \<and> (data_referencia_saques conta \<noteq> Some hoje
       \<and> fgt valor (Fin 0) \<and> fle valor (saldo conta) \<and> fle valor limite
       \<and> 1 \<le> limite_saques \<longrightarrow>
        fst (sacar_da_conta fmt hoje agora conta valor limite limite_saques) = Inr ()
        \<and> numero_saques_hoje
            (snd (sacar_da_conta fmt hoje agora conta valor limite limite_saques)) = 1)"
proof (intro conjI impI)
  show "data_referencia_saques
          (snd (sacar_da_conta fmt hoje agora conta valor limite limite_saques)) = Some hoje"
    by (rule sacar_da_conta_data)
next
  assume "data_referencia_saques conta \<noteq> Some hoje"
  then show "sacar_da_conta fmt hoje agora conta valor limite limite_saques
          = sacar_da_conta fmt hoje agora
              (conta\<lparr>data_referencia_saques := Some hoje, numero_saques_hoje := 0\<rparr>)
              valor limite limite_saques"
    by (simp add: sacar_da_conta_def resetar_contagem_saques_se_novo_dia_def)
next
  let ?fim = "snd (sacar_seguidos fmt hoje limite limite_saques conta chamadas)"
  assume h: "data_referencia_saques conta \<noteq> Some hoje
       \<and> limite_saques
           \<le> int (count_list (fst (sacar_seguidos fmt hoje limite limite_saques conta chamadas))
                    (Inr ()))"
  have "numero_saques_hoje (resetar_contagem_saques_se_novo_dia hoje ?fim)
     = numero_saques_hoje (resetar_contagem_saques_se_novo_dia hoje conta)
         + int (count_list (fst (sacar_seguidos fmt hoje limite limite_saques conta chamadas))
                  (Inr ()))"
    by (rule sacar_seguidos_contagem)
  moreover have "numero_saques_hoje (resetar_contagem_saques_se_novo_dia hoje conta) = 0"
    using h by (simp add: resetar_contagem_saques_se_novo_dia_def)
  ultimately
  have "numero_saques_hoje (resetar_contagem_saques_se_novo_dia hoje ?fim) \<ge> limite_saques"
    using h by simp
  then show "\<exists>e. fst (sacar_da_conta fmt hoje agora ?fim valor limite limite_saques) = Inl e
            \<and> (fgt valor (Fin 0) \<and> fle valor (saldo ?fim) \<longrightarrow>
                 tipo_de_erro e = LimitExceededError)"
    by (rule saque_com_contagem_no_limite)
next
  assume h: "data_referencia_saques conta \<noteq> Some hoje
       \<and> fgt valor (Fin 0) \<and> fle valor (saldo conta) \<and> fle valor limite
       \<and> 1 \<le> limite_saques"
  then show "fst (sacar_da_conta fmt hoje agora conta valor limite limite_saques) = Inr ()"
    by (auto simp: sacar_da_conta_def saque_def Let_def resetar_contagem_saques_se_novo_dia_def
      dest: fgt_not_fle fle_not_fgt)
  from h show "numero_saques_hoje
            (snd (sacar_da_conta fmt hoje agora conta valor limite limite_saques)) = 1"
    by (auto simp: sacar_da_conta_def saque_def Let_def resetar_contagem_saques_se_novo_dia_def
      dest: fgt_not_fle fle_not_fgt)
qed

text \<open>
  The example account was last used on 5 November, with its counter at 1 and its balance at
  900. On 6 November, with limit 500 and daily limit 3, a withdrawal of 100 succeeds (with
  the counter reset), one of 1000 fails for insufficient funds, two more of 100 succeed, and
  the next one of 100 is refused for the daily limit.
\<close>

theorem contagem_diaria_de_saques_witness:
  "data_referencia_saques conta_dia1 \<noteq> Some (Date 2026 11 6)
   \<and> fst (sacar_seguidos formato_exemplo (Date 2026 11 6) (Fin 500) 3 conta_dia1
            [(''06/11/2026 09:00'', Fin 100), (''06/11/2026 09:05'', Fin 1000),
             (''06/11/2026 09:10'', Fin 100), (''06/11/2026 09:15'', Fin 100)])
       = [Inr (), Inl SaldoInsuficiente, Inr (), Inr ()]
   \<and> fst (sacar_da_conta formato_exemplo (Date 2026 11 6) ''06/11/2026 09:20''
            (snd (sacar_seguidos formato_exemplo (Date 2026 11 6) (Fin 500) 3 conta_dia1
                    [(''06/11/2026 09:00'', Fin 100), (''06/11/2026 09:05'', Fin 1000),
                     (''06/11/2026 09:10'', Fin 100), (''06/11/2026 09:15'', Fin 100)]))
            (Fin 100) (Fin 500) 3) = Inl LimiteSaquesAtingido
   \<and> tipo_de_erro LimiteSaquesAtingido = LimitExceededError
   \<and> fgt (Fin 100) (Fin 0) \<and> fle (Fin 100) (saldo conta_dia1) \<and> fle (Fin 100) (Fin 500)
   \<and> fst (sacar_da_conta formato_exemplo (Date 2026 11 6) ''06/11/2026 09:00'' conta_dia1
            (Fin 100) (Fin 500) 3) = Inr ()
   \<and> numero_saques_hoje (snd (sacar_da_conta formato_exemplo (Date 2026 11 6)
        ''06/11/2026 09:00'' conta_dia1 (Fin 100) (Fin 500) 3)) = 1"
proof -
  let ?chamadas = "[(''06/11/2026 09:00'', Fin 100), (''06/11/2026 09:05'', Fin 1000),
                    (''06/11/2026 09:10'', Fin 100), (''06/11/2026 09:15'', Fin 100)]"
  let ?fim = "snd (sacar_seguidos formato_exemplo (Date 2026 11 6) (Fin 500) 3 conta_dia1
                     ?chamadas)"
  have outro_dia: "data_referencia_saques conta_dia1 \<noteq> Some (Date 2026 11 6)"
    by (simp add: conta_dia1_eq)
  have corrida: "sacar_seguidos formato_exemplo (Date 2026 11 6) (Fin 500) 3 conta_dia1 ?chamadas
      = ([Inr (), Inl SaldoInsuficiente, Inr (), Inr ()],
         conta_dia1\<lparr>data_referencia_saques := Some (Date 2026 11 6), saldo := Fin 600,
           extrato := extrato conta_dia1 @
             [''06/11/2026 09:00 | SAQUE      | -R$ 100,00 | Saldo: R$ 800,00'',
              ''06/11/2026 09:10 | SAQUE      | -R$ 100,00 | Saldo: R$ 700,00'',
              ''06/11/2026 09:15 | SAQUE      | -R$ 100,00 | Saldo: R$ 600,00''],
           numero_saques_hoje := 3\<rparr>)"
    by (simp add: conta_dia1_eq sacar_da_conta_def saque_def
        resetar_contagem_saques_se_novo_dia_def fgt_def formatar_moeda_def formato_exemplo_def
        replace_char_def)
  have resultados: "fst (sacar_seguidos formato_exemplo (Date 2026 11 6) (Fin 500) 3 conta_dia1
                     ?chamadas) = [Inr (), Inl SaldoInsuficiente, Inr (), Inr ()]"
    unfolding corrida by simp
  have tres: "3 \<le> int (count_list
      (fst (sacar_seguidos formato_exemplo (Date 2026 11 6) (Fin 500) 3 conta_dia1 ?chamadas))
      (Inr ()))"
    unfolding corrida by simp
  have valores: "fgt (Fin 100) (Fin 0)" "fle (Fin 100) (saldo conta_dia1)"
      "fle (Fin 100) (Fin 500)" "fle (Fin 100) (saldo ?fim)"
    unfolding corrida by (simp_all add: fgt_def conta_dia1_eq)
  note regra = contagem_diaria_de_saques
      [where fmt = formato_exemplo and hoje = "Date 2026 11 6" and conta = conta_dia1
        and valor = "Fin 100" and limite = "Fin 500" and limite_saques = 3
        and chamadas = ?chamadas]
  from regra [where agora = "''06/11/2026 09:20''", THEN conjunct2, THEN conjunct2,
      THEN conjunct1] outro_dia tres valores
  obtain e where e: "fst (sacar_da_conta formato_exemplo (Date 2026 11 6) ''06/11/2026 09:20''
                            ?fim (Fin 100) (Fin 500) 3) = Inl e"
      and tipo_e: "tipo_de_erro e = LimitExceededError"
    by blast
  have quinto: "fst (sacar_da_conta formato_exemplo (Date 2026 11 6) ''06/11/2026 09:20''
                       ?fim (Fin 100) (Fin 500) 3) = Inl LimiteSaquesAtingido"
    unfolding corrida
    by (simp add: sacar_da_conta_def saque_def resetar_contagem_saques_se_novo_dia_def
        fgt_def conta_dia1_eq)
  from e quinto have "e = LimiteSaquesAtingido"
    by simp
  with tipo_e have tipo: "tipo_de_erro LimiteSaquesAtingido = LimitExceededError"
    by simp
  from regra [where agora = "''06/11/2026 09:00''", THEN conjunct2, THEN conjunct2,
      THEN conjunct2] outro_dia valores
  have primeiro: "fst (sacar_da_conta formato_exemplo (Date 2026 11 6) ''06/11/2026 09:00''
                         conta_dia1 (Fin 100) (Fin 500) 3) = Inr ()
    \<and> numero_saques_hoje (snd (sacar_da_conta formato_exemplo (Date 2026 11 6)
        ''06/11/2026 09:00'' conta_dia1 (Fin 100) (Fin 500) 3)) = 1"
    by simp
  from outro_dia resultados quinto tipo valores primeiro show ?thesis
    by blast
qed

section \<open>Deposit\<close>




section \<open>The sign of the balance\<close>

text \<open>
  C6. The claim is that after every operation on an account opened by \<open>criar_conta\<close> the
  balance is >= 0. The code lets it down at one input: \<open>deposito\<close> refuses an amount with
  \<^verbatim>\<open>valor <= 0\<close>, which is false for NaN, so a deposit of NaN is accepted although its
  own message asks for a positive amount, and the balance becomes NaN, for which
  \<^verbatim>\<open>saldo >= 0\<close> is false. From then on \<^verbatim>\<open>valor > saldo\<close> is false for every
  amount, and withdrawals are no longer held back by the balance.
\<close>

theorem deposito_de_nan_deixa_saldo_nan:
  "fst (criar_conta ''529.982.247-25'' usuarios_exemplo []) = Inr conta_nova
   \<and> fst (depositar_na_conta formato_exemplo ''06/11/2026 09:00'' conta_nova NaN) = Inr ()
   \<and> saldo (snd (depositar_na_conta formato_exemplo ''06/11/2026 09:00'' conta_nova NaN)) = NaN
   \<and> \<not> fge (saldo (snd (depositar_na_conta formato_exemplo ''06/11/2026 09:00'' conta_nova NaN)))
          (Fin 0)
   \<and> fst (sacar_da_conta formato_exemplo (Date 2026 11 6) ''06/11/2026 09:05''
            (snd (depositar_na_conta formato_exemplo ''06/11/2026 09:00'' conta_nova NaN))
            (Fin 100) (Fin 500) 3) = Inr ()"
  by (simp add: criar_conta_exemplo depositar_na_conta_def deposito_def conta_nova_def
      sacar_da_conta_def saque_def resetar_contagem_saques_se_novo_dia_def fgt_def fge_def)

text \<open>
  What the checks do achieve. No call, whatever its arguments, makes the balance compare
  below zero; and as long as every amount is a finite number the balance stays a finite
  number >= 0.
\<close>

lemma saldo_nunca_menor_que_zero_passo:
  "\<not> flt (saldo conta) (Fin 0) \<Longrightarrow> \<not> flt (saldo (executar fmt conta op)) (Fin 0)"
proof (cases op)
  case (Depositar agora valor)
  assume "\<not> flt (saldo conta) (Fin 0)"
  then show ?thesis
    unfolding Depositar
    by (cases "saldo conta"; cases valor)
       (auto simp: depositar_na_conta_def deposito_def Let_def)
next
  case (Sacar hoje agora valor limite limite_saques)
  assume "\<not> flt (saldo conta) (Fin 0)"
  then show ?thesis
    unfolding Sacar
    by (cases "saldo conta"; cases valor)
       (auto simp: sacar_da_conta_def saque_def Let_def fgt_def
          resetar_contagem_saques_se_novo_dia_def)
qed

lemma saldo_nunca_menor_que_zero:
  "\<not> flt (saldo conta) (Fin 0) \<Longrightarrow> \<not> flt (saldo (foldl (executar fmt) conta ops)) (Fin 0)"
  by (induction ops arbitrary: conta) (simp_all add: saldo_nunca_menor_que_zero_passo)

lemma saldo_finito_nao_negativo_passo:
  "finita op \<Longrightarrow> \<exists>q. saldo conta = Fin q \<and> 0 \<le> q \<Longrightarrow>
     \<exists>q. saldo (executar fmt conta op) = Fin q \<and> 0 \<le> q"
proof (cases op)
  case (Depositar agora valor)
  assume "finita op" "\<exists>q. saldo conta = Fin q \<and> 0 \<le> q"
  then show ?thesis
    unfolding Depositar
    by (cases valor) (auto simp: depositar_na_conta_def deposito_def Let_def)
next
  case (Sacar hoje agora valor limite limite_saques)
  assume "finita op" "\<exists>q. saldo conta = Fin q \<and> 0 \<le> q"
  then show ?thesis
    unfolding Sacar
    by (cases valor)
       (auto simp: sacar_da_conta_def saque_def Let_def fgt_def
          resetar_contagem_saques_se_novo_dia_def)
qed

lemma saldo_finito_nao_negativo:
  "list_all finita ops \<Longrightarrow> \<exists>q. saldo conta = Fin q \<and> 0 \<le> q \<Longrightarrow>
     fge (saldo (foldl (executar fmt) conta ops)) (Fin 0)"
proof (induction ops arbitrary: conta)
  case Nil
  then show ?case by (auto simp: fge_def)
next
  case (Cons op ops)
  from Cons.prems have "\<exists>q. saldo (executar fmt conta op) = Fin q \<and> 0 \<le> q"
    by (intro saldo_finito_nao_negativo_passo) simp_all
  with Cons.prems Cons.IH show ?case by simp
qed

section \<open>Account numbers\<close>

text \<open>
  C7. \<open>criar_conta\<close> gives the new account the number 1 when the registry of accounts is
  empty and the greatest key plus one otherwise, and stores it under that number. Three
  accounts opened one after the other from the empty registry get the numbers 1, 2 and 3,
  whoever the (registered) holders are. When no holder has the normalised identifier the
  call fails with a NotFoundError and leaves the registry as it was, so that the next call
  is answered as it would have been without the failed one.
\<close>

theorem numeracao_sequencial_das_contas:
  "(us (somente_digitos cpf_arg) \<noteq> None \<longrightarrow>
      criar_conta cpf_arg us cs =
        (Inr \<lparr>agencia = ''0001'',
              numero = (if cs = [] then 1 else Max (set (map fst cs)) + 1),
              cpf_titular = somente_digitos cpf_arg, saldo = Fin 0, extrato = [],
              numero_saques_hoje = 0, data_referencia_saques = None\<rparr>,
         AList.update (if cs = [] then 1 else Max (set (map fst cs)) + 1)
           \<lparr>agencia = ''0001'',
            numero = (if cs = [] then 1 else Max (set (map fst cs)) + 1),
            cpf_titular = somente_digitos cpf_arg, saldo = Fin 0, extrato = [],
            numero_saques_hoje = 0, data_referencia_saques = None\<rparr> cs))
   \<and> (us (somente_digitos cpf1) \<noteq> None \<and> us (somente_digitos cpf2) \<noteq> None
       \<and> us (somente_digitos cpf3) \<noteq> None \<longrightarrow>
        map_sum id numero (fst (criar_conta cpf1 us [])) = Inr 1
      \<and> map_sum id numero (fst (criar_conta cpf2 us (snd (criar_conta cpf1 us [])))) = Inr 2
      \<and> map_sum id numero
           (fst (criar_conta cpf3 us
                  (snd (criar_conta cpf2 us (snd (criar_conta cpf1 us [])))))) = Inr 3
      \<and> map fst (snd (criar_conta cpf3 us
                  (snd (criar_conta cpf2 us (snd (criar_conta cpf1 us [])))))) = [1, 2, 3])
   \<and> (us (somente_digitos cpf_arg) = None \<longrightarrow>
        criar_conta cpf_arg us cs = (Inl UsuarioNaoEncontrado, cs)
      \<and> tipo_de_erro UsuarioNaoEncontrado = NotFoundError
      \<and> criar_conta cpf2 us (snd (criar_conta cpf_arg us cs)) = criar_conta cpf2 us cs)"
  by (simp add: criar_conta_def Let_def)

text \<open>
  In the example registry: accounts for the first holder, the second and the first again are
  numbered 1, 2 and 3; the identifier 000.000.001-91 belongs to nobody, and after the failed
  call the next account still gets the number 1.
\<close>

theorem numeracao_sequencial_das_contas_witness:
  "usuarios_exemplo (somente_digitos ''529.982.247-25'') \<noteq> None
   \<and> usuarios_exemplo (somente_digitos ''111.444.777-35'') \<noteq> None
   \<and> usuarios_exemplo (somente_digitos ''000.000.001-91'') = None
   \<and> fst (criar_conta ''529.982.247-25'' usuarios_exemplo []) = Inr conta_nova
   \<and> map_sum id numero (fst (criar_conta ''529.982.247-25'' usuarios_exemplo [])) = Inr 1
   \<and> map_sum id numero
        (fst (criar_conta ''111.444.777-35'' usuarios_exemplo
               (snd (criar_conta ''529.982.247-25'' usuarios_exemplo [])))) = Inr 2
   \<and> map_sum id numero
        (fst (criar_conta ''529.982.247-25'' usuarios_exemplo
               (snd (criar_conta ''111.444.777-35'' usuarios_exemplo
                      (snd (criar_conta ''529.982.247-25'' usuarios_exemplo [])))))) = Inr 3
   \<and> criar_conta ''000.000.001-91'' usuarios_exemplo [] = (Inl UsuarioNaoEncontrado, [])
   \<and> map_sum id numero
        (fst (criar_conta ''529.982.247-25'' usuarios_exemplo
               (snd (criar_conta ''000.000.001-91'' usuarios_exemplo [])))) = Inr 1"
proof -
  have ana: "usuarios_exemplo (somente_digitos ''529.982.247-25'') \<noteq> None"
    by (simp add: usuarios_exemplo_eq somente_digitos_def isdigit_def)
  have bia: "usuarios_exemplo (somente_digitos ''111.444.777-35'') \<noteq> None"
    by (simp add: usuarios_exemplo_eq somente_digitos_def isdigit_def)
  have ninguem: "usuarios_exemplo (somente_digitos ''000.000.001-91'') = None"
    by (simp add: usuarios_exemplo_eq somente_digitos_def isdigit_def)
  note regra = numeracao_sequencial_das_contas [where us = usuarios_exemplo]
  from regra [where ?cpf1.0 = "''529.982.247-25''" and ?cpf2.0 = "''111.444.777-35''"
      and ?cpf3.0 = "''529.982.247-25''", THEN conjunct2, THEN conjunct1] ana bia
  have tres: "map_sum id numero (fst (criar_conta ''529.982.247-25'' usuarios_exemplo [])) = Inr 1
   \<and> map_sum id numero
        (fst (criar_conta ''111.444.777-35'' usuarios_exemplo
               (snd (criar_conta ''529.982.247-25'' usuarios_exemplo [])))) = Inr 2
   \<and> map_sum id numero
        (fst (criar_conta ''529.982.247-25'' usuarios_exemplo
               (snd (criar_conta ''111.444.777-35'' usuarios_exemplo
                      (snd (criar_conta ''529.982.247-25'' usuarios_exemplo [])))))) = Inr 3"
    by blast
  from regra [where cpf_arg = "''000.000.001-91''" and cs = "[]"
      and ?cpf2.0 = "''529.982.247-25''", THEN conjunct2, THEN conjunct2] ninguem
  have falha: "criar_conta ''000.000.001-91'' usuarios_exemplo [] = (Inl UsuarioNaoEncontrado, [])
    \<and> criar_conta ''529.982.247-25'' usuarios_exemplo
          (snd (criar_conta ''000.000.001-91'' usuarios_exemplo []))
        = criar_conta ''529.982.247-25'' usuarios_exemplo []"
    by blast
  have nova: "fst (criar_conta ''529.982.247-25'' usuarios_exemplo []) = Inr conta_nova"
    by (simp add: criar_conta_exemplo)
  from tres falha have depois: "map_sum id numero
        (fst (criar_conta ''529.982.247-25'' usuarios_exemplo
               (snd (criar_conta ''000.000.001-91'' usuarios_exemplo [])))) = Inr 1"
    by simp
  from ana bia ninguem nova tres falha depois show ?thesis
    by blast
qed


section \<open>Registering holders\<close>

text \<open>
  C8. \<open>criar_usuario\<close> reduces the identifier it is given to its digits, in their order.
  It fails with a ValidationError when no digit is left, and with a DuplicateError when a
  holder is already stored under the digits. A holder that is registered is stored under the
  digits, which are also its \<open>cpf\<close>. So once a registration has succeeded, a registration
  with any identifier that has the same digits fails with a DuplicateError; in particular
  for the identifiers 123.456.789-00 and 12345678900, in either order.
\<close>

theorem cpf_unico_apos_normalizacao:
  "somente_digitos texto = filter isdigit texto
   \<and> (somente_digitos cpf_arg = [] \<longrightarrow>
        criar_usuario strptime nome_arg data_str cpf_arg endereco_arg us = (Inl CpfInvalido, us)
      \<and> tipo_de_erro CpfInvalido = ValidationError)
   \<and> (somente_digitos cpf_arg \<noteq> [] \<and> us (somente_digitos cpf_arg) \<noteq> None \<longrightarrow>
        criar_usuario strptime nome_arg data_str cpf_arg endereco_arg us = (Inl CpfJaExiste, us)
      \<and> tipo_de_erro CpfJaExiste = DuplicateError)
   \<and> (fst (criar_usuario strptime nome_arg data_str cpf_arg endereco_arg us) = Inr u \<longrightarrow>
        cpf u = somente_digitos cpf_arg
      \<and> snd (criar_usuario strptime nome_arg data_str cpf_arg endereco_arg us)
          (somente_digitos cpf_arg) = Some u
      \<and> (somente_digitos outro_cpf = somente_digitos cpf_arg \<longrightarrow>
           fst (criar_usuario strptime nome2 data2 outro_cpf endereco2
                  (snd (criar_usuario strptime nome_arg data_str cpf_arg endereco_arg us)))
             = Inl CpfJaExiste))
   \<and> (fst (criar_usuario strptime nome1 data1 ''123.456.789-00'' endereco1 us) = Inr u1 \<longrightarrow>
        fst (criar_usuario strptime nome2 data2 ''12345678900'' endereco2
               (snd (criar_usuario strptime nome1 data1 ''123.456.789-00'' endereco1 us)))
          = Inl CpfJaExiste)
   \<and> (fst (criar_usuario strptime nome1 data1 ''12345678900'' endereco1 us) = Inr u2 \<longrightarrow>
        fst (criar_usuario strptime nome2 data2 ''123.456.789-00'' endereco2
               (snd (criar_usuario strptime nome1 data1 ''12345678900'' endereco1 us)))
          = Inl CpfJaExiste)"
proof -
  have pontuado: "somente_digitos ''123.456.789-00'' = ''12345678900''"
    by (simp add: somente_digitos_def isdigit_def)
  have limpo: "somente_digitos ''12345678900'' = ''12345678900''"
    by (simp add: somente_digitos_def isdigit_def)
  have filtro: "somente_digitos texto = filter isdigit texto"
    by (simp add: somente_digitos_def)
  have vazio: "somente_digitos cpf_arg = [] \<longrightarrow>
        criar_usuario strptime nome_arg data_str cpf_arg endereco_arg us = (Inl CpfInvalido, us)
      \<and> tipo_de_erro CpfInvalido = ValidationError"
    by (simp add: criar_usuario_def)
  have repetido: "somente_digitos cpf_arg \<noteq> [] \<and> us (somente_digitos cpf_arg) \<noteq> None \<longrightarrow>
        criar_usuario strptime nome_arg data_str cpf_arg endereco_arg us = (Inl CpfJaExiste, us)
      \<and> tipo_de_erro CpfJaExiste = DuplicateError"
    by (simp add: criar_usuario_def)
  have guardado: "fst (criar_usuario strptime nome_arg data_str cpf_arg endereco_arg us) = Inr u \<longrightarrow>
        cpf u = somente_digitos cpf_arg
      \<and> snd (criar_usuario strptime nome_arg data_str cpf_arg endereco_arg us)
          (somente_digitos cpf_arg) = Some u
      \<and> (somente_digitos outro_cpf = somente_digitos cpf_arg \<longrightarrow>
           fst (criar_usuario strptime nome2 data2 outro_cpf endereco2
                  (snd (criar_usuario strptime nome_arg data_str cpf_arg endereco_arg us)))
             = Inl CpfJaExiste)"
    by (auto simp: criar_usuario_def Let_def split: if_splits option.splits)
  have ordem1: "fst (criar_usuario strptime nome1 data1 ''123.456.789-00'' endereco1 us) = Inr u1 \<longrightarrow>
        fst (criar_usuario strptime nome2 data2 ''12345678900'' endereco2
               (snd (criar_usuario strptime nome1 data1 ''123.456.789-00'' endereco1 us)))
          = Inl CpfJaExiste"
    by (auto simp: criar_usuario_def Let_def pontuado limpo split: if_splits option.splits)
  have ordem2: "fst (criar_usuario strptime nome1 data1 ''12345678900'' endereco1 us) = Inr u2 \<longrightarrow>
        fst (criar_usuario strptime nome2 data2 ''123.456.789-00'' endereco2
               (snd (criar_usuario strptime nome1 data1 ''12345678900'' endereco1 us)))
          = Inl CpfJaExiste"
    by (auto simp: criar_usuario_def Let_def pontuado limpo split: if_splits option.splits)
  from filtro vazio repetido guardado ordem1 ordem2 show ?thesis
    by blast
qed

text \<open>
  From the empty registry: an identifier without digits is refused; 123.456.789-00 is
  registered and 12345678900 is then refused as a duplicate, and the same in the other order.
\<close>

theorem cpf_unico_apos_normalizacao_witness:
  "somente_digitos ''sem cpf'' = []
   \<and> criar_usuario strptime_exemplo ''Caio Reis'' ''15/03/1990'' ''sem cpf''
        ''Rua C, 3, Centro, Olinda/PE'' Map.empty = (Inl CpfInvalido, Map.empty)
   \<and> fst (criar_usuario strptime_exemplo ''Caio Reis'' ''15/03/1990'' ''123.456.789-00''
            ''Rua C, 3, Centro, Olinda/PE'' Map.empty)
       = Inr \<lparr>nome = ''Caio Reis'', data_nascimento = Date 1990 3 15, cpf = ''12345678900'',
              endereco = ''Rua C, 3, Centro, Olinda/PE''\<rparr>
   \<and> fst (criar_usuario strptime_exemplo ''Davi Melo'' ''01/01/2000'' ''12345678900''
            ''Rua D, 4, Centro, Olinda/PE''
            (snd (criar_usuario strptime_exemplo ''Caio Reis'' ''15/03/1990'' ''123.456.789-00''
                    ''Rua C, 3, Centro, Olinda/PE'' Map.empty))) = Inl CpfJaExiste
   \<and> fst (criar_usuario strptime_exemplo ''Caio Reis'' ''15/03/1990'' ''12345678900''
            ''Rua C, 3, Centro, Olinda/PE'' Map.empty)
       = Inr \<lparr>nome = ''Caio Reis'', data_nascimento = Date 1990 3 15, cpf = ''12345678900'',
              endereco = ''Rua C, 3, Centro, Olinda/PE''\<rparr>
   \<and> fst (criar_usuario strptime_exemplo ''Davi Melo'' ''01/01/2000'' ''123.456.789-00''
            ''Rua D, 4, Centro, Olinda/PE''
            (snd (criar_usuario strptime_exemplo ''Caio Reis'' ''15/03/1990'' ''12345678900''
                    ''Rua C, 3, Centro, Olinda/PE'' Map.empty))) = Inl CpfJaExiste"
proof -
  let ?caio = "\<lparr>nome = ''Caio Reis'', data_nascimento = Date 1990 3 15, cpf = ''12345678900'',
                 endereco = ''Rua C, 3, Centro, Olinda/PE''\<rparr>"
  have sem: "somente_digitos ''sem cpf'' = []"
    by (simp add: somente_digitos_def isdigit_def)
  have um: "fst (criar_usuario strptime_exemplo ''Caio Reis'' ''15/03/1990'' ''123.456.789-00''
                   ''Rua C, 3, Centro, Olinda/PE'' Map.empty) = Inr ?caio"
    by (simp add: criar_usuario_def somente_digitos_def isdigit_def strptime_exemplo_def
        strip_def isspace_def Let_def)
  have dois: "fst (criar_usuario strptime_exemplo ''Caio Reis'' ''15/03/1990'' ''12345678900''
                   ''Rua C, 3, Centro, Olinda/PE'' Map.empty) = Inr ?caio"
    by (simp add: criar_usuario_def somente_digitos_def isdigit_def strptime_exemplo_def
        strip_def isspace_def Let_def)
  note regra = cpf_unico_apos_normalizacao
      [where strptime = strptime_exemplo and us = Map.empty and ?nome1.0 = "''Caio Reis''"
        and ?data1.0 = "''15/03/1990''" and ?endereco1.0 = "''Rua C, 3, Centro, Olinda/PE''"
        and ?nome2.0 = "''Davi Melo''" and ?data2.0 = "''01/01/2000''"
        and ?endereco2.0 = "''Rua D, 4, Centro, Olinda/PE''" and ?u1.0 = ?caio
        and ?u2.0 = ?caio and nome_arg = "''Caio Reis''" and data_str = "''15/03/1990''"
        and cpf_arg = "''sem cpf''" and endereco_arg = "''Rua C, 3, Centro, Olinda/PE''"]
  from regra [THEN conjunct2, THEN conjunct1] sem
  have recusa: "criar_usuario strptime_exemplo ''Caio Reis'' ''15/03/1990'' ''sem cpf''
        ''Rua C, 3, Centro, Olinda/PE'' Map.empty = (Inl CpfInvalido, Map.empty)"
    by blast
  from regra [THEN conjunct2, THEN conjunct2, THEN conjunct2, THEN conjunct2, THEN conjunct1] um
  have ordem1: "fst (criar_usuario strptime_exemplo ''Davi Melo'' ''01/01/2000'' ''12345678900''
            ''Rua D, 4, Centro, Olinda/PE''
            (snd (criar_usuario strptime_exemplo ''Caio Reis'' ''15/03/1990'' ''123.456.789-00''
                    ''Rua C, 3, Centro, Olinda/PE'' Map.empty))) = Inl CpfJaExiste"
    by blast
  from regra [THEN conjunct2, THEN conjunct2, THEN conjunct2, THEN conjunct2, THEN conjunct2] dois
  have ordem2: "fst (criar_usuario strptime_exemplo ''Davi Melo'' ''01/01/2000'' ''123.456.789-00''
            ''Rua D, 4, Centro, Olinda/PE''
            (snd (criar_usuario strptime_exemplo ''Caio Reis'' ''15/03/1990'' ''12345678900''
                    ''Rua C, 3, Centro, Olinda/PE'' Map.empty))) = Inl CpfJaExiste"
    by blast
  from sem recusa um ordem1 dois ordem2 show ?thesis
    by blast
qed

section \<open>The statement\<close>

lemma join_append:
  "xs \<noteq> [] \<Longrightarrow> ys \<noteq> [] \<Longrightarrow> join sep (xs @ ys) = join sep xs @ sep @ join sep ys"
proof (induction sep xs rule: join.induct)
  case (1 sep)
  then show ?case by simp
next
  case (2 sep x)
  then show ?case by (cases ys) simp_all
next
  case (3 sep x y zs)
  then show ?case by simp
qed

text \<open>
  C9. \<open>extrato_da_conta\<close> leaves the account as it was. Its text is the heading, then the
  lines of the log in the order they are stored, each on its own line, or the line
  "(Sem movimentacoes)" (written with its accents) when the log is empty, then the line with
  the current balance, then the closing rule. For an account with no transaction and the
  balance 0.0, which Python formats as 0.00, that is the heading, the placeholder and
  "Saldo atual: R$ 0,00".
\<close>

theorem extrato_e_leitura_pura:
  "snd (extrato_da_conta fmt conta) = conta
   \<and> (extrato conta \<noteq> [] \<longrightarrow>
        fst (extrato_da_conta fmt conta) =
          [CHR 0x0A] @ ''========== EXTRATO =========='' @ [CHR 0x0A]
            @ join [CHR 0x0A] (extrato conta) @ [CHR 0x0A]
            @ ''Saldo atual: '' @ formatar_moeda fmt (saldo conta) @ [CHR 0x0A]
            @ ''============================='' @ [CHR 0x0A])
   \<and> (extrato conta = [] \<longrightarrow>
        fst (extrato_da_conta fmt conta) =
          [CHR 0x0A] @ ''========== EXTRATO =========='' @ [CHR 0x0A]
            @ ''(Sem movimenta'' @ [CHR 0xE7, CHR 0xF5] @ ''es)'' @ [CHR 0x0A]
            @ ''Saldo atual: '' @ formatar_moeda fmt (saldo conta) @ [CHR 0x0A]
            @ ''============================='' @ [CHR 0x0A])
   \<and> (extrato conta = [] \<and> saldo conta = Fin 0 \<and> fmt (Fin 0) = ''0.00'' \<longrightarrow>
        fst (extrato_da_conta fmt conta) =
          [CHR 0x0A] @ ''========== EXTRATO =========='' @ [CHR 0x0A]
            @ ''(Sem movimenta'' @ [CHR 0xE7, CHR 0xF5] @ ''es)'' @ [CHR 0x0A]
            @ ''Saldo atual: R$ 0,00'' @ [CHR 0x0A]
            @ ''============================='' @ [CHR 0x0A])"
proof (intro conjI impI)
  show "snd (extrato_da_conta fmt conta) = conta"
    by (simp add: extrato_da_conta_def)
next
  assume cheio: "extrato conta \<noteq> []"
  let ?fim = "[''Saldo atual: '' @ formatar_moeda fmt (saldo conta),
               ''============================='' @ [CHR 0x0A]]"
  have "fst (extrato_da_conta fmt conta)
      = join [CHR 0x0A]
          (([CHR 0x0A] @ ''========== EXTRATO =========='') # (extrato conta @ ?fim))"
    using cheio by (simp add: extrato_da_conta_def exibir_extrato_def Let_def)
  also have "\<dots> = ([CHR 0x0A] @ ''========== EXTRATO =========='') @ [CHR 0x0A]
      @ join [CHR 0x0A] (extrato conta @ ?fim)"
    using cheio by (cases "extrato conta") simp_all
  also have "join [CHR 0x0A] (extrato conta @ ?fim)
      = join [CHR 0x0A] (extrato conta) @ [CHR 0x0A] @ join [CHR 0x0A] ?fim"
    using cheio by (intro join_append) simp_all
  finally show "fst (extrato_da_conta fmt conta) =
          [CHR 0x0A] @ ''========== EXTRATO =========='' @ [CHR 0x0A]
            @ join [CHR 0x0A] (extrato conta) @ [CHR 0x0A]
            @ ''Saldo atual: '' @ formatar_moeda fmt (saldo conta) @ [CHR 0x0A]
            @ ''============================='' @ [CHR 0x0A]"
    by simp
next
  assume "extrato conta = []"
  then show "fst (extrato_da_conta fmt conta) =
          [CHR 0x0A] @ ''========== EXTRATO =========='' @ [CHR 0x0A]
            @ ''(Sem movimenta'' @ [CHR 0xE7, CHR 0xF5] @ ''es)'' @ [CHR 0x0A]
            @ ''Saldo atual: '' @ formatar_moeda fmt (saldo conta) @ [CHR 0x0A]
            @ ''============================='' @ [CHR 0x0A]"
    by (simp add: extrato_da_conta_def exibir_extrato_def Let_def)
next
  assume "extrato conta = [] \<and> saldo conta = Fin 0 \<and> fmt (Fin 0) = ''0.00''"
  then show "fst (extrato_da_conta fmt conta) =
          [CHR 0x0A] @ ''========== EXTRATO =========='' @ [CHR 0x0A]
            @ ''(Sem movimenta'' @ [CHR 0xE7, CHR 0xF5] @ ''es)'' @ [CHR 0x0A]
            @ ''Saldo atual: R$ 0,00'' @ [CHR 0x0A]
            @ ''============================='' @ [CHR 0x0A]"
    by (simp add: extrato_da_conta_def exibir_extrato_def Let_def formatar_moeda_def
        replace_char_def)
qed

text \<open>
  The statement of the new account, and that of the example account with its two lines.
\<close>

theorem extrato_e_leitura_pura_witness:
  "extrato conta_nova = [] \<and> saldo conta_nova = Fin 0 \<and> formato_exemplo (Fin 0) = ''0.00''
   \<and> extrato_da_conta formato_exemplo conta_nova =
        ([CHR 0x0A] @ ''========== EXTRATO =========='' @ [CHR 0x0A]
           @ ''(Sem movimenta'' @ [CHR 0xE7, CHR 0xF5] @ ''es)'' @ [CHR 0x0A]
           @ ''Saldo atual: R$ 0,00'' @ [CHR 0x0A]
           @ ''============================='' @ [CHR 0x0A],
         conta_nova)
   \<and> extrato conta_dia1 \<noteq> []
   \<and> extrato_da_conta formato_exemplo conta_dia1 =
        ([CHR 0x0A] @ ''========== EXTRATO =========='' @ [CHR 0x0A]
           @ ''05/11/2026 09:00 | DEP'' @ [CHR 0xD3]
           @ ''SITO   | +R$ 1.000,00 | Saldo: R$ 1.000,00'' @ [CHR 0x0A]
           @ ''05/11/2026 10:00 | SAQUE      | -R$ 100,00 | Saldo: R$ 900,00'' @ [CHR 0x0A]
           @ ''Saldo atual: R$ 900,00'' @ [CHR 0x0A]
           @ ''============================='' @ [CHR 0x0A],
         conta_dia1)"
proof -
  have nova: "extrato conta_nova = []" "saldo conta_nova = Fin 0"
      "formato_exemplo (Fin 0) = ''0.00''"
    by (simp_all add: conta_nova_def formato_exemplo_def)
  have cheio: "extrato conta_dia1 \<noteq> []"
    by (simp add: conta_dia1_eq)
  have linhas: "join [CHR 0x0A] (extrato conta_dia1) =
      ''05/11/2026 09:00 | DEP'' @ [CHR 0xD3]
        @ ''SITO   | +R$ 1.000,00 | Saldo: R$ 1.000,00'' @ [CHR 0x0A]
        @ ''05/11/2026 10:00 | SAQUE      | -R$ 100,00 | Saldo: R$ 900,00''"
    by (simp add: conta_dia1_eq)
  have saldo_dia1: "formatar_moeda formato_exemplo (saldo conta_dia1) = ''R$ 900,00''"
    by (simp add: conta_dia1_eq formatar_moeda_def formato_exemplo_def replace_char_def)
  note regra_nova = extrato_e_leitura_pura [where fmt = formato_exemplo and conta = conta_nova]
  note regra_dia1 = extrato_e_leitura_pura [where fmt = formato_exemplo and conta = conta_dia1]
  from regra_nova [THEN conjunct2, THEN conjunct2, THEN conjunct2] nova
  have texto_nova: "fst (extrato_da_conta formato_exemplo conta_nova) =
        [CHR 0x0A] @ ''========== EXTRATO =========='' @ [CHR 0x0A]
           @ ''(Sem movimenta'' @ [CHR 0xE7, CHR 0xF5] @ ''es)'' @ [CHR 0x0A]
           @ ''Saldo atual: R$ 0,00'' @ [CHR 0x0A]
           @ ''============================='' @ [CHR 0x0A]"
    by blast
  from regra_dia1 [THEN conjunct2, THEN conjunct1] cheio
  have "fst (extrato_da_conta formato_exemplo conta_dia1) =
          [CHR 0x0A] @ ''========== EXTRATO =========='' @ [CHR 0x0A]
            @ join [CHR 0x0A] (extrato conta_dia1) @ [CHR 0x0A]
            @ ''Saldo atual: '' @ formatar_moeda formato_exemplo (saldo conta_dia1) @ [CHR 0x0A]
            @ ''============================='' @ [CHR 0x0A]"
    by blast
  then have texto_dia1: "fst (extrato_da_conta formato_exemplo conta_dia1) =
        [CHR 0x0A] @ ''========== EXTRATO =========='' @ [CHR 0x0A]
           @ ''05/11/2026 09:00 | DEP'' @ [CHR 0xD3]
           @ ''SITO   | +R$ 1.000,00 | Saldo: R$ 1.000,00'' @ [CHR 0x0A]
           @ ''05/11/2026 10:00 | SAQUE      | -R$ 100,00 | Saldo: R$ 900,00'' @ [CHR 0x0A]
           @ ''Saldo atual: R$ 900,00'' @ [CHR 0x0A]
           @ ''============================='' @ [CHR 0x0A]"
    unfolding linhas saldo_dia1 by simp
  from regra_nova [THEN conjunct1] texto_nova
  have par_nova: "extrato_da_conta formato_exemplo conta_nova =
        ([CHR 0x0A] @ ''========== EXTRATO =========='' @ [CHR 0x0A]
           @ ''(Sem movimenta'' @ [CHR 0xE7, CHR 0xF5] @ ''es)'' @ [CHR 0x0A]
           @ ''Saldo atual: R$ 0,00'' @ [CHR 0x0A]
           @ ''============================='' @ [CHR 0x0A],
         conta_nova)"
    by (metis prod.collapse)
  from regra_dia1 [THEN conjunct1] texto_dia1
  have par_dia1: "extrato_da_conta formato_exemplo conta_dia1 =
        ([CHR 0x0A] @ ''========== EXTRATO =========='' @ [CHR 0x0A]
           @ ''05/11/2026 09:00 | DEP'' @ [CHR 0xD3]
           @ ''SITO   | +R$ 1.000,00 | Saldo: R$ 1.000,00'' @ [CHR 0x0A]
           @ ''05/11/2026 10:00 | SAQUE      | -R$ 100,00 | Saldo: R$ 900,00'' @ [CHR 0x0A]
           @ ''Saldo atual: R$ 900,00'' @ [CHR 0x0A]
           @ ''============================='' @ [CHR 0x0A],
         conta_dia1)"
    by (metis prod.collapse)
  from nova par_nova cheio par_dia1 show ?thesis
    by blast
qed

section \<open>Registration: the order of the checks\<close>

text \<open>
  C10. In \<open>criar_usuario\<close> the test for an existing holder comes before the birth date is
  parsed. A call whose identifier has digits under which a holder is already stored fails
  with a DuplicateError whatever the birth-date text is, also one that does not parse. A call
  whose identifier has digits under which nobody is stored and whose birth-date text does not
  parse fails with a ValidationError, and the registry is as it was: no holder is stored.
\<close>

theorem duplicidade_antes_da_data:
  "(somente_digitos cpf_arg \<noteq> [] \<and> us (somente_digitos cpf_arg) \<noteq> None \<longrightarrow>
      criar_usuario strptime nome_arg data_str cpf_arg endereco_arg us = (Inl CpfJaExiste, us)
      \<and> tipo_de_erro CpfJaExiste = DuplicateError)
   \<and> (somente_digitos cpf_arg \<noteq> [] \<and> us (somente_digitos cpf_arg) = None
       \<and> strptime data_str = None \<longrightarrow>
      criar_usuario strptime nome_arg data_str cpf_arg endereco_arg us
        = (Inl DataNascimentoInvalida, us)
      \<and> tipo_de_erro DataNascimentoInvalida = ValidationError)"
  by (simp add: criar_usuario_def Let_def)

text \<open>
  In the example registry, with the birth date 31/02/1990, which does not parse: the
  identifier of the first holder is refused as a duplicate; an identifier nobody has is
  refused for the date, and the registry stays as it was.
\<close>

theorem duplicidade_antes_da_data_witness:
  "strptime_exemplo ''31/02/1990'' = None
   \<and> somente_digitos ''529.982.247-25'' \<noteq> []
   \<and> usuarios_exemplo (somente_digitos ''529.982.247-25'') \<noteq> None
   \<and> criar_usuario strptime_exemplo ''Ana Lima'' ''31/02/1990'' ''529.982.247-25''
        ''Rua A, 1, Centro, Recife/PE'' usuarios_exemplo = (Inl CpfJaExiste, usuarios_exemplo)
   \<and> somente_digitos ''000.000.001-91'' \<noteq> []
   \<and> usuarios_exemplo (somente_digitos ''000.000.001-91'') = None
   \<and> criar_usuario strptime_exemplo ''Eva Dias'' ''31/02/1990'' ''000.000.001-91''
        ''Rua E, 5, Centro, Recife/PE'' usuarios_exemplo
       = (Inl DataNascimentoInvalida, usuarios_exemplo)"
proof -
  have data: "strptime_exemplo ''31/02/1990'' = None"
    by (simp add: strptime_exemplo_def)
  have ana: "somente_digitos ''529.982.247-25'' \<noteq> []"
      "usuarios_exemplo (somente_digitos ''529.982.247-25'') \<noteq> None"
    by (simp_all add: usuarios_exemplo_eq somente_digitos_def isdigit_def)
  have eva: "somente_digitos ''000.000.001-91'' \<noteq> []"
      "usuarios_exemplo (somente_digitos ''000.000.001-91'') = None"
    by (simp_all add: usuarios_exemplo_eq somente_digitos_def isdigit_def)
  from duplicidade_antes_da_data
      [where strptime = strptime_exemplo and us = usuarios_exemplo and nome_arg = "''Ana Lima''"
        and data_str = "''31/02/1990''" and cpf_arg = "''529.982.247-25''"
        and endereco_arg = "''Rua A, 1, Centro, Recife/PE''", THEN conjunct1] ana
  have duplicado: "criar_usuario strptime_exemplo ''Ana Lima'' ''31/02/1990'' ''529.982.247-25''
        ''Rua A, 1, Centro, Recife/PE'' usuarios_exemplo = (Inl CpfJaExiste, usuarios_exemplo)"
    by blast
  from duplicidade_antes_da_data
      [where strptime = strptime_exemplo and us = usuarios_exemplo and nome_arg = "''Eva Dias''"
        and data_str = "''31/02/1990''" and cpf_arg = "''000.000.001-91''"
        and endereco_arg = "''Rua E, 5, Centro, Recife/PE''", THEN conjunct2] eva data
  have invalida: "criar_usuario strptime_exemplo ''Eva Dias'' ''31/02/1990'' ''000.000.001-91''
        ''Rua E, 5, Centro, Recife/PE'' usuarios_exemplo
       = (Inl DataNascimentoInvalida, usuarios_exemplo)"
    by blast
  from data ana duplicado eva invalida show ?thesis
    by blast
qed

end
